theory Spec2Isabelle
  imports Main "HOL-Library.AList"
begin

section \<open>JavaScript values and arguments\<close>

text \<open>
  Property values of a message are strings, numbers or buffers. The source tests them
  with \<^verbatim>\<open>if (x)\<close>, so their truthiness is part of the model: the empty string and the
  number zero are falsy, every buffer (an object) is truthy.
\<close>

datatype js_value = JStr string | JNum int | JBuf "nat list"

fun truthy :: "js_value \<Rightarrow> bool" where
  "truthy (JStr s) = (s \<noteq> [])"
| "truthy (JNum n) = (n \<noteq> 0)"
| "truthy (JBuf b) = True"

text \<open>
  What a caller can pass where the TypeScript signature asks for a message or for an
  array of messages: nothing, null, a primitive, an object that is not an array, an array.
\<close>

datatype ('a, 'b) js_arg =
    JUndefined
  | JNull
  | JPrimitive js_value
  | JObject 'a
  | JArray "'b list"

fun falsy_arg :: "('a, 'b) js_arg \<Rightarrow> bool" where
  "falsy_arg JUndefined = True"
| "falsy_arg JNull = True"
| "falsy_arg (JPrimitive v) = (\<not> truthy v)"
| "falsy_arg (JObject x) = False"
| "falsy_arg (JArray xs) = False"

fun typeof_object :: "('a, 'b) js_arg \<Rightarrow> bool" where
  "typeof_object JUndefined = False"
| "typeof_object JNull = True"
| "typeof_object (JPrimitive v) = (case v of JBuf b \<Rightarrow> True | _ \<Rightarrow> False)"
| "typeof_object (JObject x) = True"
| "typeof_object (JArray xs) = True"

fun isArray :: "('a, 'b) js_arg \<Rightarrow> bool" where
  "isArray (JArray xs) = True"
| "isArray _ = False"

section \<open>Messages, deliveries and errors\<close>

type_synonym buffer = string

type_synonym dictionary = "(string \<times> js_value) list"

datatype amqp_body = Section buffer | DataSections "buffer list"

text \<open>
  An AmqpMessage: the body, the two optional dictionaries, and the fields of the
  properties section (\<^verbatim>\<open>message_id\<close>, \<^verbatim>\<open>subject\<close>, ...) as the object's own
  keys, read by name with \<^verbatim>\<open>(m as any)[prop]\<close>.
\<close>

record amqp_message =
  body :: amqp_body
  message_annotations :: "dictionary option"
  application_properties :: "dictionary option"
  properties :: dictionary

text \<open>A ServiceBusMessage as the sender uses it: its body, and the rest of its fields.\<close>

record sb_message =
  sb_body :: "js_value option"
  sb_fields :: dictionary

datatype amqp_error = AmqpError string string

datatype sb_error =
    Error string
  | TypeError string
  | Translated amqp_error
  | LinkError amqp_error

text \<open>
  Modelled from the spec: \<^verbatim>\<open>translate\<close> of amqp-common is not part of the sources at
  hand. The spec (7) has every error of the link engine pass through a translation step
  before it reaches the caller; the error it returns for an error \<open>e\<close> is kept symbolic as
  \<open>Translated e\<close>. The translation reads the fields of the error it is given, so a call
  with no error at all (\<^verbatim>\<open>translate(undefined)\<close>) throws a TypeError. \<open>Inl\<close> is the
  error thrown by the call, \<open>Inr\<close> the error it returns.
\<close>

definition translate :: "amqp_error option \<Rightarrow> sb_error + sb_error" where
  "translate err =
     (case err of
        None \<Rightarrow> Inl (TypeError ''Cannot read property condition of undefined'')
      | Some e \<Rightarrow> Inr (Translated e))"

record delivery =
  delivery_id :: nat
  remote_state_error :: "amqp_error option"

record event_context =
  ctx_delivery :: delivery

datatype settlement = Resolved delivery | Rejected sb_error

section \<open>The sender link and the sender's state\<close>

datatype sender_event = accepted | rejected | released | modified

text \<open>
  The four closures a call of \<^verbatim>\<open>_trySend\<close> creates, named by the promise of that call.
\<close>

datatype handler = OnAccepted nat | OnRejected nat | OnReleased nat | OnModified nat

fun handler_call :: "handler \<Rightarrow> nat" where
  "handler_call (OnAccepted n) = n"
| "handler_call (OnRejected n) = n"
| "handler_call (OnReleased n) = n"
| "handler_call (OnModified n) = n"

datatype wire = Msg amqp_message | Buf buffer

text \<open>Every call the sender makes on a collaborator, and every settlement of a promise.\<close>

datatype op =
    AcquireLock string
  | NegotiateClaim
  | CreateSender string string
  | EnsureTokenRenewal
  | RegisterHandler sender_event handler
  | RemoveHandler sender_event handler
  | LinkSend wire "nat option" "nat option"
  | Resolve nat delivery
  | Reject nat sb_error
  | LinkClose
  | ClearTimeout

text \<open>
  Modelled from the spec: the link (the Sender of rhea-promise) is not part of the sources
  at hand. The spec (6) has, per link, \<^verbatim>\<open>isOpen()\<close>, \<^verbatim>\<open>close()\<close>, \<^verbatim>\<open>sendable()\<close> (the
  credit check), \<^verbatim>\<open>send(msg)\<close> and the registration of listeners for the events
  accepted, rejected, released and modified. The link is kept as what these answer: whether
  it is open, whether it has credit, and the listeners registered on it, in registration
  order.
\<close>

record link =
  link_open :: bool
  link_sendable :: bool
  link_handlers :: "(sender_event \<times> handler) list"

record sender_state =
  connectionId :: string
  sender_id :: string
  address :: string
  senderLock :: string
  sender :: "link option"
  context_sender :: "string option"
  tokenRenewalTimer :: bool
  promises :: "nat \<Rightarrow> settlement option"
  next_promise :: nat
  oplog :: "op list"

definition emit_op :: "op \<Rightarrow> sender_state \<Rightarrow> sender_state" where
  "emit_op x s = s\<lparr>oplog := oplog s @ [x]\<rparr>"

definition isOpen :: "sender_state \<Rightarrow> bool" where
  "isOpen s = (case sender s of None \<Rightarrow> False | Some l \<Rightarrow> link_open l)"

subsection \<open>Promises\<close>

text \<open>
  A promise settles once: \<^verbatim>\<open>resolve\<close> and \<^verbatim>\<open>reject\<close> on a settled promise change
  nothing. The call itself is logged either way.
\<close>

definition resolve :: "nat \<Rightarrow> delivery \<Rightarrow> sender_state \<Rightarrow> sender_state" where
  "resolve p d s =
     emit_op (Resolve p d)
       (case promises s p of
          None \<Rightarrow> s\<lparr>promises := (promises s)(p := Some (Resolved d))\<rparr>
        | Some v \<Rightarrow> s)"

definition reject :: "nat \<Rightarrow> sb_error \<Rightarrow> sender_state \<Rightarrow> sender_state" where
  "reject p e s =
     emit_op (Reject p e)
       (case promises s p of
          None \<Rightarrow> s\<lparr>promises := (promises s)(p := Some (Rejected e))\<rparr>
        | Some v \<Rightarrow> s)"

subsection \<open>Listeners of the link\<close>

text \<open>
  \<^verbatim>\<open>this._sender!.registerHandler(ev, h)\<close> and \<^verbatim>\<open>this._sender!.removeHandler(ev, h)\<close>
  on the link the sender holds at that moment; their callers have read \<^verbatim>\<open>this._sender\<close>
  before. Removing a listener removes one registration of it; every closure is registered
  once, so it is that one.
\<close>

definition registerHandler :: "sender_event \<Rightarrow> handler \<Rightarrow> sender_state \<Rightarrow> sender_state" where
  "registerHandler ev h s =
     emit_op (RegisterHandler ev h)
       (s\<lparr>sender := map_option (\<lambda>l. l\<lparr>link_handlers := link_handlers l @ [(ev, h)]\<rparr>) (sender s)\<rparr>)"

definition removeHandler :: "sender_event \<Rightarrow> handler \<Rightarrow> sender_state \<Rightarrow> sender_state" where
  "removeHandler ev h s =
     emit_op (RemoveHandler ev h)
       (s\<lparr>sender := map_option (\<lambda>l. l\<lparr>link_handlers := remove1 (ev, h) (link_handlers l)\<rparr>) (sender s)\<rparr>)"

definition link_send :: "wire \<Rightarrow> nat option \<Rightarrow> nat option \<Rightarrow> sender_state \<Rightarrow> sender_state" where
  "link_send message tag format s = emit_op (LinkSend message tag format) s"

section \<open>MessageSender._trySend\<close>

definition removeListeners :: "nat \<Rightarrow> sender_state \<Rightarrow> sender_state" where
  "removeListeners p s =
     removeHandler modified (OnModified p)
       (removeHandler released (OnReleased p)
         (removeHandler accepted (OnAccepted p)
           (removeHandler rejected (OnRejected p) s)))"

definition released_msg :: "sender_state \<Rightarrow> string" where
  "released_msg s =
     ''['' @ connectionId s @ '']Sender '' @ [CHR 0x27] @ sender_id s @ [CHR 0x27] @ '', '' @
     ''received a release disposition.Hence we are rejecting the promise.''"

definition modified_msg :: "sender_state \<Rightarrow> string" where
  "modified_msg s =
     ''['' @ connectionId s @ '']Sender '' @ [CHR 0x22] @ sender_id s @ [CHR 0x22] @ '', '' @
     ''received a modified disposition.Hence we are rejecting the promise.''"

definition try_later_msg :: "sender_state \<Rightarrow> string" where
  "try_later_msg s =
     ''['' @ connectionId s @ '']Sender '' @ [CHR 0x22] @ sender_id s @ [CHR 0x22] @ '', '' @
     ''cannot send the message right now. Please try later.''"

text \<open>
  The four handlers. The second component of the result is the error the handler throws,
  \<open>None\<close> when it returns. Each handler starts with \<^verbatim>\<open>removeListeners()\<close>, which
  reads \<^verbatim>\<open>this._sender!\<close>: with no link there the handler throws a TypeError before
  anything else. \<^verbatim>\<open>onRejected\<close> hands the error of the remote state to
  \<^verbatim>\<open>translate\<close> as it is; \<^verbatim>\<open>onReleased\<close> and \<^verbatim>\<open>onModified\<close> do so under
  \<^verbatim>\<open>if (error)\<close>. When \<^verbatim>\<open>translate\<close> throws, the handler has removed the listeners
  and ends there, without a call of \<^verbatim>\<open>reject\<close>.
\<close>

definition no_sender_error :: sb_error where
  "no_sender_error = TypeError ''Cannot read property removeHandler of undefined''"

definition onAccepted ::
  "nat \<Rightarrow> event_context \<Rightarrow> sender_state \<Rightarrow> sender_state \<times> sb_error option" where
  "onAccepted p ctx s =
     (case sender s of
        None \<Rightarrow> (s, Some no_sender_error)
      | Some l \<Rightarrow> (resolve p (ctx_delivery ctx) (removeListeners p s), None))"

definition onRejected ::
  "nat \<Rightarrow> event_context \<Rightarrow> sender_state \<Rightarrow> sender_state \<times> sb_error option" where
  "onRejected p ctx s =
     (case sender s of
        None \<Rightarrow> (s, Some no_sender_error)
      | Some l \<Rightarrow>
          (let s1 = removeListeners p s
           in case translate (remote_state_error (ctx_delivery ctx)) of
                Inl thrown \<Rightarrow> (s1, Some thrown)
              | Inr err \<Rightarrow> (reject p err s1, None)))"

definition onReleased ::
  "nat \<Rightarrow> event_context \<Rightarrow> sender_state \<Rightarrow> sender_state \<times> sb_error option" where
  "onReleased p ctx s =
     (case sender s of
        None \<Rightarrow> (s, Some no_sender_error)
      | Some l \<Rightarrow>
          (let s1 = removeListeners p s
           in case remote_state_error (ctx_delivery ctx) of
                Some e \<Rightarrow>
                  (case translate (Some e) of
                     Inl thrown \<Rightarrow> (s1, Some thrown)
                   | Inr err \<Rightarrow> (reject p err s1, None))
              | None \<Rightarrow> (reject p (Error (released_msg s1)) s1, None)))"

definition onModified ::
  "nat \<Rightarrow> event_context \<Rightarrow> sender_state \<Rightarrow> sender_state \<times> sb_error option" where
  "onModified p ctx s =
     (case sender s of
        None \<Rightarrow> (s, Some no_sender_error)
      | Some l \<Rightarrow>
          (let s1 = removeListeners p s
           in case remote_state_error (ctx_delivery ctx) of
                Some e \<Rightarrow>
                  (case translate (Some e) of
                     Inl thrown \<Rightarrow> (s1, Some thrown)
                   | Inr err \<Rightarrow> (reject p err s1, None))
              | None \<Rightarrow> (reject p (Error (modified_msg s1)) s1, None)))"

fun invoke ::
  "handler \<Rightarrow> event_context \<Rightarrow> sender_state \<Rightarrow> sender_state \<times> sb_error option" where
  "invoke (OnAccepted p) ctx s = onAccepted p ctx s"
| "invoke (OnRejected p) ctx s = onRejected p ctx s"
| "invoke (OnReleased p) ctx s = onReleased p ctx s"
| "invoke (OnModified p) ctx s = onModified p ctx s"

text \<open>
  The link emitting a disposition event, as an event emitter does: the listeners registered
  for that event at that moment are called in registration order, each with the context of
  the event. A listener that throws ends the emission: the listeners after it are not
  called, and the error leaves the sender with the link engine.
\<close>

definition listeners :: "sender_event \<Rightarrow> sender_state \<Rightarrow> handler list" where
  "listeners ev s =
     (case sender s of
        None \<Rightarrow> []
      | Some l \<Rightarrow> map snd (filter (\<lambda>eh. fst eh = ev) (link_handlers l)))"

fun call_listeners ::
  "handler list \<Rightarrow> event_context \<Rightarrow> sender_state \<Rightarrow> sender_state \<times> sb_error option" where
  "call_listeners [] ctx s = (s, None)"
| "call_listeners (h # hs) ctx s =
     (case invoke h ctx s of
        (s1, Some thrown) \<Rightarrow> (s1, Some thrown)
      | (s1, None) \<Rightarrow> call_listeners hs ctx s1)"

definition emit :: "sender_event \<Rightarrow> event_context \<Rightarrow> sender_state \<Rightarrow> sender_state" where
  "emit ev ctx s = fst (call_listeners (listeners ev s) ctx s)"

text \<open>
  \<^verbatim>\<open>new Promise((resolve, reject) => ...)\<close> of \<^verbatim>\<open>_trySend\<close>: a new pending promise,
  whose executor runs at once. The executor starts by reading \<^verbatim>\<open>this._sender!.credit\<close>;
  with no link that throws, and the promise is rejected with the TypeError.
\<close>

definition sendEventPromise ::
  "wire \<Rightarrow> nat option \<Rightarrow> nat option \<Rightarrow> sender_state \<Rightarrow> nat \<times> sender_state" where
  "sendEventPromise message tag format s0 =
     (let p = next_promise s0;
          s = s0\<lparr>next_promise := Suc p, promises := (promises s0)(p := None)\<rparr>
      in case sender s of
           None \<Rightarrow> (p, reject p (TypeError ''Cannot read property credit of undefined'') s)
         | Some l \<Rightarrow>
             if link_sendable l then
               (p, link_send message tag format
                     (registerHandler released (OnReleased p)
                       (registerHandler modified (OnModified p)
                         (registerHandler rejected (OnRejected p)
                           (registerHandler accepted (OnAccepted p) s)))))
             else (p, reject p (Error (try_later_msg s)) s))"

text \<open>
  Awaiting a promise: the link's events arrive one after the other until the promise is
  settled. \<open>None\<close> is a promise that the events at hand never settle.
\<close>

fun await ::
  "nat \<Rightarrow> (sender_event \<times> event_context) list \<Rightarrow> sender_state \<Rightarrow>
   settlement option \<times> (sender_event \<times> event_context) list \<times> sender_state" where
  "await p [] s = (promises s p, [], s)"
| "await p (e # es) s =
     (case promises s p of
        Some v \<Rightarrow> (Some v, e # es, s)
      | None \<Rightarrow> await p es (emit (fst e) (snd e) s))"

text \<open>
  Modelled from the spec: \<^verbatim>\<open>retry\<close> of amqp-common is not part of the sources at hand.
  The spec (4.2) has a retry policy of bounded attempts with backoff around the send
  attempt: the operation is called, the promise it returns is awaited, and when that
  promise rejects and attempts remain, the operation is called again. The backoff is a
  delay and changes no state.
\<close>

fun retry ::
  "(sender_state \<Rightarrow> nat \<times> sender_state) \<Rightarrow> nat \<Rightarrow> (sender_event \<times> event_context) list \<Rightarrow>
   sender_state \<Rightarrow> settlement option \<times> sender_state" where
  "retry operation 0 evs s = (None, s)"
| "retry operation (Suc k) evs s =
     (case operation s of
        (p, s1) \<Rightarrow>
          (case await p evs s1 of
             (None, evs', s2) \<Rightarrow> (None, s2)
           | (Some (Resolved d), evs', s2) \<Rightarrow> (Some (Resolved d), s2)
           | (Some (Rejected e), evs', s2) \<Rightarrow>
               if k = 0 then (Some (Rejected e), s2) else retry operation k evs' s2))"

text \<open>
  \<^verbatim>\<open>_trySend\<close>: the promise is made once, and the operation handed to \<^verbatim>\<open>retry\<close> is
  \<^verbatim>\<open>() => sendEventPromise\<close>, which returns that promise. \<open>tries\<close> is the number of
  attempts of the retry policy, \<open>evs\<close> the dispositions the link emits afterwards.
\<close>

definition trySend ::
  "wire \<Rightarrow> nat option \<Rightarrow> nat option \<Rightarrow> nat \<Rightarrow> (sender_event \<times> event_context) list \<Rightarrow>
   sender_state \<Rightarrow> settlement option \<times> sender_state" where
  "trySend message tag format tries evs s =
     (case sendEventPromise message tag format s of
        (p, s1) \<Rightarrow> retry (\<lambda>s'. (p, s')) tries evs s1)"

text \<open>
  The retry as the spec words it (4.2), for comparison with \<open>trySend\<close>: every attempt
  of the policy is a send attempt of its own, with a promise and handlers of its own.
\<close>

definition trySend_spec ::
  "wire \<Rightarrow> nat option \<Rightarrow> nat option \<Rightarrow> nat \<Rightarrow> (sender_event \<times> event_context) list \<Rightarrow>
   sender_state \<Rightarrow> settlement option \<times> sender_state" where
  "trySend_spec message tag format tries evs s =
     retry (sendEventPromise message tag format) tries evs s"

section \<open>MessageSender: initialisation, send, sendBatch, close\<close>

text \<open>
  The awaited collaborators of \<^verbatim>\<open>_init\<close> and what each of them answers: the claim
  negotiation and the token renewal of LinkEntity resolve (\<open>None\<close>) or reject with an
  error, \<^verbatim>\<open>connection.createSender\<close> rejects or resolves with a new link, of which the
  environment says whether it has credit.
\<close>

record init_env =
  negotiateClaim_result :: "amqp_error option"
  createSender_result :: "amqp_error + bool"
  ensureTokenRenewal_result :: "amqp_error option"

text \<open>
  Modelled from the spec: \<^verbatim>\<open>createSender\<close> of rhea-promise and \<^verbatim>\<open>_ensureTokenRenewal\<close>
  of LinkEntity are not part of the sources at hand. The spec (6) has
  \<^verbatim>\<open>openSenderLink(address, onError) -> Link\<close>: the link a resolved \<^verbatim>\<open>createSender\<close>
  returns is open and has no listener yet. The spec (4.5) has each LinkEntity schedule its
  renewal timer once its link is open.
\<close>

definition new_link :: "bool \<Rightarrow> link" where
  "new_link credit = \<lparr>link_open = True, link_sendable = credit, link_handlers = []\<rparr>"

definition ensureTokenRenewal :: "sender_state \<Rightarrow> sender_state" where
  "ensureTokenRenewal s = s\<lparr>tokenRenewalTimer := True\<rparr>"

text \<open>
  The \<^verbatim>\<open>catch\<close> of \<^verbatim>\<open>_init\<close>: \<^verbatim>\<open>err = translate(err); throw err\<close>. What is
  thrown is the translated error, or what \<^verbatim>\<open>translate\<close> itself throws.
\<close>

definition rethrow :: "amqp_error \<Rightarrow> sb_error" where
  "rethrow e = (case translate (Some e) of Inl thrown \<Rightarrow> thrown | Inr err \<Rightarrow> err)"

text \<open>
  \<^verbatim>\<open>_init\<close>. Every error caught is translated and thrown again; the second component
  is the error thrown, \<open>None\<close> when the promise resolves.
\<close>

definition init :: "init_env \<Rightarrow> sender_state \<Rightarrow> sender_state \<times> sb_error option" where
  "init env s =
     (if \<not> isOpen s then
        (let s1 = emit_op NegotiateClaim s
         in case negotiateClaim_result env of
              Some e \<Rightarrow> (s1, Some (rethrow e))
            | None \<Rightarrow>
                (let s2 = emit_op (CreateSender (sender_id s1) (address s1)) s1
                 in case createSender_result env of
                      Inl e \<Rightarrow> (s2, Some (rethrow e))
                    | Inr credit \<Rightarrow>
                        (let s3 = s2\<lparr>sender := Some (new_link credit)\<rparr>;
                             s4 = (if context_sender s3 = None
                                   then s3\<lparr>context_sender := Some (sender_id s3)\<rparr> else s3);
                             s5 = emit_op EnsureTokenRenewal s4
                         in case ensureTokenRenewal_result env of
                              Some e \<Rightarrow> (s5, Some (rethrow e))
                            | None \<Rightarrow> (ensureTokenRenewal s5, None))))
      else (s, None))"

text \<open>
  \<^verbatim>\<open>defaultLock.acquire(this.senderLock, () => this._init())\<close> for a call that runs
  alone: the lock is free and the initialiser runs. Calls that overlap are the subject of
  the last section.
\<close>

definition acquire_init :: "init_env \<Rightarrow> sender_state \<Rightarrow> sender_state \<times> sb_error option" where
  "acquire_init env s = init env (emit_op (AcquireLock (senderLock s)) s)"

text \<open>
  What the encoders and the conversion to an AmqpMessage do is outside the sources at
  hand (\<^verbatim>\<open>ServiceBusMessage.toAmqpMessage\<close>, \<^verbatim>\<open>dataTransformer.encode\<close>,
  \<^verbatim>\<open>message.encode\<close> and the list \<^verbatim>\<open>messageProperties\<close> of the names of the fields of
  the properties section); they are parameters.
\<close>

record codec =
  toAmqpMessage :: "sb_message \<Rightarrow> amqp_message"
  dt_encode :: "js_value option \<Rightarrow> amqp_body"
  encode :: "amqp_message \<Rightarrow> buffer"
  messageProperties :: "string list"

text \<open>An argument that passed the check of \<^verbatim>\<open>send\<close>, read as a message: an array or a
  buffer is an object with none of a message's fields.\<close>

fun as_message :: "(sb_message, 'b) js_arg \<Rightarrow> sb_message" where
  "as_message (JObject d) = d"
| "as_message _ = \<lparr>sb_body = None, sb_fields = []\<rparr>"

definition to_wire :: "codec \<Rightarrow> sb_message \<Rightarrow> amqp_message" where
  "to_wire cdc d = (toAmqpMessage cdc d)\<lparr>body := dt_encode cdc (sb_body d)\<rparr>"

definition send ::
  "codec \<Rightarrow> init_env \<Rightarrow> nat \<Rightarrow> (sender_event \<times> event_context) list \<Rightarrow>
   (sb_message, sb_message) js_arg \<Rightarrow> sender_state \<Rightarrow> settlement option \<times> sender_state" where
  "send cdc env tries evs data s =
     (if falsy_arg data \<or> \<not> typeof_object data then
        (Some (Rejected (Error ''data is required and it must be of type object.'')), s)
      else
        (case (if \<not> isOpen s then acquire_init env s else (s, None)) of
           (s1, Some err) \<Rightarrow> (Some (Rejected err), s1)
         | (s1, None) \<Rightarrow> trySend (Msg (to_wire cdc (as_message data))) None None tries evs s1))"

text \<open>
  The envelope of \<^verbatim>\<open>sendBatch\<close>, from the encoded messages: the body, then what is
  taken from \<^verbatim>\<open>messages[0]\<close>. Reading \<^verbatim>\<open>messages[0].message_annotations\<close> of an empty
  array throws a TypeError. A dictionary is an object and truthy whenever it is there; a
  property is copied when its value is truthy.
\<close>

fun copy_properties :: "string list \<Rightarrow> amqp_message \<Rightarrow> dictionary \<Rightarrow> dictionary" where
  "copy_properties [] m0 acc = acc"
| "copy_properties (prop # ps) m0 acc =
     (case map_of (properties m0) prop of
        Some v \<Rightarrow>
          if truthy v then copy_properties ps m0 (AList.update prop v acc)
          else copy_properties ps m0 acc
      | None \<Rightarrow> copy_properties ps m0 acc)"

definition batchMessage :: "codec \<Rightarrow> amqp_message list \<Rightarrow> sb_error + amqp_message" where
  "batchMessage cdc messages =
     (let batch = \<lparr>body = DataSections (map (encode cdc) messages),
                   message_annotations = None, application_properties = None,
                   properties = []\<rparr>
      in case messages of
           [] \<Rightarrow> Inl (TypeError ''Cannot read property message_annotations of undefined'')
         | m0 # ms \<Rightarrow>
             (let b1 = (case message_annotations m0 of
                          Some a \<Rightarrow> batch\<lparr>message_annotations := Some a\<rparr>
                        | None \<Rightarrow> batch);
                  b2 = (case application_properties m0 of
                          Some a \<Rightarrow> b1\<lparr>application_properties := Some a\<rparr>
                        | None \<Rightarrow> b1)
              in Inr (b2\<lparr>properties := copy_properties (messageProperties cdc) m0 (properties b2)\<rparr>)))"

fun array_elements :: "('a, 'b) js_arg \<Rightarrow> 'b list" where
  "array_elements (JArray xs) = xs"
| "array_elements _ = []"

definition batch_format :: nat where
  "batch_format = 0x80013700"

definition sendBatch ::
  "codec \<Rightarrow> init_env \<Rightarrow> nat \<Rightarrow> (sender_event \<times> event_context) list \<Rightarrow>
   (sb_message, sb_message) js_arg \<Rightarrow> sender_state \<Rightarrow> settlement option \<times> sender_state" where
  "sendBatch cdc env tries evs datas s =
     (if falsy_arg datas \<or> \<not> isArray datas then
        (Some (Rejected (Error ''data is required and it must be an Array.'')), s)
      else
        (case (if \<not> isOpen s then acquire_init env s else (s, None)) of
           (s1, Some err) \<Rightarrow> (Some (Rejected err), s1)
         | (s1, None) \<Rightarrow>
             (case batchMessage cdc (map (to_wire cdc) (array_elements datas)) of
                Inl err \<Rightarrow> (Some (Rejected err), s1)
              | Inr batch \<Rightarrow>
                  trySend (Buf (encode cdc batch)) None (Some batch_format) tries evs s1)))"

text \<open>
  \<^verbatim>\<open>close\<close>. The first argument is what the awaited \<^verbatim>\<open>this._sender.close()\<close> answers:
  \<open>None\<close> when it resolves, the error when it rejects; that error is thrown again as it is.
\<close>

definition close :: "amqp_error option \<Rightarrow> sender_state \<Rightarrow> sb_error option \<times> sender_state" where
  "close link_close_result s =
     (case sender s of
        None \<Rightarrow> (None, s)
      | Some l \<Rightarrow>
          (let s1 = emit_op LinkClose s
           in case link_close_result of
                Some e \<Rightarrow> (Some (LinkError e), s1)
              | None \<Rightarrow>
                  (None, emit_op ClearTimeout
                           (s1\<lparr>context_sender := None, sender := None,
                               tokenRenewalTimer := False\<rparr>))))"

subsection \<open>What the theorems count\<close>

text \<open>The registrations of the handlers of one promise.\<close>

definition registered :: "nat \<Rightarrow> sender_state \<Rightarrow> (sender_event \<times> handler) list" where
  "registered p s =
     (case sender s of
        None \<Rightarrow> []
      | Some l \<Rightarrow> filter (\<lambda>eh. handler_call (snd eh) = p) (link_handlers l))"

fun is_send :: "op \<Rightarrow> bool" where
  "is_send (LinkSend m tag format) = True"
| "is_send _ = False"

fun is_register :: "op \<Rightarrow> bool" where
  "is_register (RegisterHandler ev h) = True"
| "is_register _ = False"

fun is_clear :: "op \<Rightarrow> bool" where
  "is_clear ClearTimeout = True"
| "is_clear _ = False"

fun settles :: "nat \<Rightarrow> op \<Rightarrow> bool" where
  "settles p (Resolve q d) = (q = p)"
| "settles p (Reject q e) = (q = p)"
| "settles p _ = False"

section \<open>SubscriptionClient: receive and receiveBatch\<close>

datatype receive_mode = peekLock | receiveAndDelete

record receive_options =
  opt_maxConcurrentCalls :: nat
  opt_receiveMode :: receive_mode
  opt_autoComplete :: "bool option"

record message_handler_options =
  autoComplete :: "bool option"

text \<open>
  A receiver as the client sees it: its type and id, what \<^verbatim>\<open>isOpen()\<close> and
  \<^verbatim>\<open>isReceivingMessages\<close> answer, the options it was created with, and the two callbacks
  once \<^verbatim>\<open>receive(onMessage, onError)\<close> has been called on it.
\<close>

record receiver =
  receiverType :: string
  receiver_id :: string
  receiver_open :: bool
  isReceivingMessages :: bool
  receiver_options :: receive_options
  callbacks :: "(nat \<times> nat) option"

datatype client_op =
    StreamingReceive string nat nat
  | BatchingReceive string nat "nat option"

record subscription_client =
  client_name :: string
  maxConcurrentCalls :: nat
  receiveMode :: receive_mode
  streamingReceiver :: "receiver option"
  batchingReceiver :: "receiver option"
  client_log :: "client_op list"

datatype receive_handler = ReceiveHandler string

text \<open>
  Modelled from the spec: StreamingReceiver and BatchingReceiver are not part of the
  sources at hand. The spec (6) has \<^verbatim>\<open>StreamingReceiver.create(context, options) -> Receiver\<close>
  and \<^verbatim>\<open>BatchingReceiver.create(context, options) -> Receiver\<close>: a new receiver with the
  options given, whose link is not established yet; its id is new (the first argument).
  \<^verbatim>\<open>receiver.receive(onMessage, onError)\<close> keeps the callbacks and starts the link without
  waiting for it. A batching receiver (4.4) has \<^verbatim>\<open>isReceivingMessages\<close> true while a pull
  is in progress and false once the call has returned; after the call its link is up or
  not, as the environment says.
\<close>

definition StreamingReceiver_create :: "string \<Rightarrow> receive_options \<Rightarrow> receiver" where
  "StreamingReceiver_create new_id opts =
     \<lparr>receiverType = ''streaming'', receiver_id = new_id, receiver_open = False,
      isReceivingMessages = False, receiver_options = opts, callbacks = None\<rparr>"

definition BatchingReceiver_create :: "string \<Rightarrow> receive_options \<Rightarrow> receiver" where
  "BatchingReceiver_create new_id opts =
     \<lparr>receiverType = ''batching'', receiver_id = new_id, receiver_open = False,
      isReceivingMessages = False, receiver_options = opts, callbacks = None\<rparr>"

definition StreamingReceiver_receive :: "nat \<Rightarrow> nat \<Rightarrow> receiver \<Rightarrow> receiver" where
  "StreamingReceiver_receive onMessage onError r = r\<lparr>callbacks := Some (onMessage, onError)\<rparr>"

definition BatchingReceiver_receive :: "bool \<Rightarrow> receiver \<Rightarrow> receiver" where
  "BatchingReceiver_receive link_up r = r\<lparr>receiver_open := link_up, isReceivingMessages := False\<rparr>"

definition quoted :: "string \<Rightarrow> string" where
  "quoted x = [CHR 0x22] @ x @ [CHR 0x22]"

definition receive_conflict_msg :: "receiver \<Rightarrow> subscription_client \<Rightarrow> string" where
  "receive_conflict_msg rcvr c =
     ''A '' @ quoted (receiverType rcvr) @ '' receiver with id '' @ quoted (receiver_id rcvr) @
     '' has already been '' @ ''created for the Subscription '' @ quoted (client_name c) @
     ''. Another receive() call cannot be made while '' @
     ''the previous one is active. Please stop the previous receive() by calling '' @
     quoted ''receiveHandler.stop()'' @ ''.''"

definition receiveBatch_conflict_msg :: "receiver \<Rightarrow> subscription_client \<Rightarrow> string" where
  "receiveBatch_conflict_msg rcvr c =
     ''A '' @ quoted (receiverType rcvr) @ '' receiver with id '' @ quoted (receiver_id rcvr) @
     '' has already been '' @ ''created for the Subscription '' @ quoted (client_name c) @
     ''. Another receiveBatch() call cannot be made'' @
     ''while the previous one is active. Please wait for the previous receiveBatch() to complete'' @
     ''and then call receiveBatch() again.''"

text \<open>
  \<^verbatim>\<open>receive\<close>. The condition of the source,
  \<^verbatim>\<open>!streamingReceiver || (streamingReceiver && !streamingReceiver.isOpen())\<close>, by cases on
  the slot. The result is the handle returned or the error thrown, with the client after
  the call.
\<close>

definition receive ::
  "string \<Rightarrow> nat \<Rightarrow> nat \<Rightarrow> message_handler_options option \<Rightarrow> subscription_client \<Rightarrow>
   (sb_error + receive_handler) \<times> subscription_client" where
  "receive new_id onMessage onError options c =
     (if (case streamingReceiver c of None \<Rightarrow> True | Some rcvr \<Rightarrow> \<not> receiver_open rcvr) then
        (let options' = (case options of None \<Rightarrow> \<lparr>autoComplete = None\<rparr> | Some opts \<Rightarrow> opts);
             rcvOptions = \<lparr>opt_maxConcurrentCalls = maxConcurrentCalls c,
                           opt_receiveMode = receiveMode c,
                           opt_autoComplete = autoComplete options'\<rparr>;
             sReceiver = StreamingReceiver_create new_id rcvOptions;
             c1 = c\<lparr>streamingReceiver := Some sReceiver\<rparr>;
             c2 = c1\<lparr>streamingReceiver := Some (StreamingReceiver_receive onMessage onError sReceiver),
                    client_log := client_log c1 @ [StreamingReceive new_id onMessage onError]\<rparr>
         in (Inr (ReceiveHandler new_id), c2))
      else
        (case streamingReceiver c of
           None \<Rightarrow> (Inl (TypeError ''Cannot read property receiverType of undefined''), c)
         | Some rcvr \<Rightarrow> (Inl (Error (receive_conflict_msg rcvr c)), c)))"

text \<open>
  \<^verbatim>\<open>receiveBatch\<close>. \<open>answer\<close> is what the awaited \<^verbatim>\<open>bReceiver.receive(...)\<close> answers:
  the error it rejects with, or the messages it resolves with (each message by its id).
\<close>

definition receiveBatch ::
  "string \<Rightarrow> nat \<Rightarrow> nat option \<Rightarrow> bool \<Rightarrow> sb_error + nat list \<Rightarrow> subscription_client \<Rightarrow>
   (sb_error + nat list) \<times> subscription_client" where
  "receiveBatch new_id maxMessageCount maxWaitTimeInSeconds link_up answer c =
     (if (case batchingReceiver c of
            None \<Rightarrow> True
          | Some rcvr \<Rightarrow> \<not> receiver_open rcvr \<or> \<not> isReceivingMessages rcvr) then
        (let options = \<lparr>opt_maxConcurrentCalls = maxConcurrentCalls c,
                        opt_receiveMode = receiveMode c,
                        opt_autoComplete = None\<rparr>;
             bReceiver = BatchingReceiver_create new_id options;
             c1 = c\<lparr>batchingReceiver := Some bReceiver\<rparr>;
             c2 = c1\<lparr>batchingReceiver := Some (BatchingReceiver_receive link_up bReceiver),
                    client_log := client_log c1 @
                      [BatchingReceive new_id maxMessageCount maxWaitTimeInSeconds]\<rparr>
         in (answer, c2))
      else
        (case batchingReceiver c of
           None \<Rightarrow> (Inl (TypeError ''Cannot read property receiverType of undefined''), c)
         | Some rcvr \<Rightarrow> (Inl (Error (receiveBatch_conflict_msg rcvr c)), c)))"

section \<open>Calls of send and sendBatch that overlap\<close>

text \<open>
  One event loop runs the code between two awaits without interruption, so calls that
  overlap are interleavings of these pieces. The pieces of \<^verbatim>\<open>send\<close> and
  \<^verbatim>\<open>sendBatch\<close> up to the end of the initialisation are: the check of the argument, the
  test \<^verbatim>\<open>!this._isOpen()\<close> and the call of \<^verbatim>\<open>defaultLock.acquire\<close>; and, for the
  initialiser the lock runs, \<^verbatim>\<open>_init\<close> up to its first await, between its awaits, and
  from the last await to its end.
\<close>

text \<open>
  Modelled from the spec: \<^verbatim>\<open>defaultLock\<close> of amqp-common is not part of the sources at
  hand. The spec (2) has a named-mutex registry in which at most one initialisation routine
  runs per key at a time; (4.2) has every call acquire the sender lock and run
  \<^verbatim>\<open>_init\<close>, which checks the open state again after acquiring, since another waiter
  may have opened the link; (5) has the calls serialize through the lock. This is how the
  source uses the lock: every caller hands it an initialiser of its own,
  \<^verbatim>\<open>() => this._init()\<close>, and \<^verbatim>\<open>_init\<close> starts with the test
  \<^verbatim>\<open>!this._isOpen()\<close>. So the initialisers handed in under one key run one at a
  time, in the order of the calls, and every caller gets the result of its own initialiser.
  (The sentences of 2 and 4.1 by which a later caller awaits the result of the initialiser
  in flight, and its own is never called, are not followed: they leave no waiter to find
  the link opened by another, which is what the test in \<^verbatim>\<open>_init\<close> is for.) When an
  initialiser ends, the lock passes to the next one at once. All calls here are of one
  sender, whose key is \<^verbatim>\<open>senderLock\<close>.
\<close>

datatype init_phase = Negotiating | Creating | Renewing

text \<open>
  A caller past \<^verbatim>\<open>acquire\<close> is queued behind the holder of the lock, or its initialiser
  runs a link-open attempt, or its initialiser has ended: without an attempt when it found
  the link open, or with the outcome of its attempt. A caller that found the link open
  went on without the lock; a caller whose argument failed the check was refused.
\<close>

datatype caller =
    Queued
  | Running nat
  | Initialised "nat option" "sb_error option"
  | Direct
  | Refused

text \<open>
  The sender, the caller whose initialiser holds the lock, the callers queued behind it,
  the link-open attempts in flight with the await each is at, the number of attempts
  started, the outcomes of the attempts that are over, and the callers.
\<close>

record system =
  st :: sender_state
  holder :: "nat option"
  queue :: "nat list"
  running :: "(nat \<times> init_phase) list"
  started :: nat
  outcomes :: "(nat \<times> sb_error option) list"
  callers :: "nat \<Rightarrow> caller option"


text \<open>
  \<^verbatim>\<open>_init\<close> of caller \<open>i\<close>, past a test \<^verbatim>\<open>!this._isOpen()\<close> that found the link
  not open, up to its first await: a new attempt.
\<close>

definition init_begin :: "nat \<Rightarrow> system \<Rightarrow> system" where
  "init_begin i y =
     y\<lparr>st := emit_op NegotiateClaim (st y),
       holder := Some i,
       running := running y @ [(started y, Negotiating)],
       started := Suc (started y),
       callers := (callers y)(i := Some (Running (started y)))\<rparr>"













text \<open>
  What holds of the system whatever has happened: the lock is held exactly while one
  attempt is in flight; the caller whose initialiser runs an attempt holds the lock, and the
  attempt is the one in flight; every caller that has seen the outcome of an attempt has
  seen the one recorded for it; an attempt has at most one outcome, and only once it is
  over.
\<close>

definition outcome_inv :: "system \<Rightarrow> bool" where
  "outcome_inv y =
     ((\<forall>i k r. callers y i = Some (Initialised (Some k) r) \<longrightarrow> map_of (outcomes y) k = Some r)
      \<and> (\<forall>k r. (k, r) \<in> set (outcomes y) \<longrightarrow> k < started y \<and> k \<notin> fst ` set (running y))
      \<and> distinct (map fst (outcomes y)))"

definition sys_inv :: "system \<Rightarrow> bool" where
  "sys_inv y =
     ((holder y = None \<longrightarrow> running y = [] \<and> queue y = [])
      \<and> (\<forall>i. holder y = Some i \<longrightarrow> (\<exists>k ph. running y = [(k, ph)] \<and> k < started y))
      \<and> (\<forall>i k. callers y i = Some (Running k) \<longrightarrow>
            holder y = Some i \<and> (\<exists>ph. running y = [(k, ph)]))
      \<and> outcome_inv y)"


section \<open>Concrete inputs\<close>

definition a_link :: link where
  "a_link = \<lparr>link_open = True, link_sendable = True, link_handlers = []\<rparr>"

definition a_sender :: sender_state where
  "a_sender =
     \<lparr>connectionId = ''conn-1'', sender_id = ''queue-1'', address = ''queue'',
      senderLock = ''sender-1'', sender = Some a_link, context_sender = Some ''queue-1'',
      tokenRenewalTimer = True, promises = (\<lambda>p. None), next_promise = 0, oplog = []\<rparr>"

definition no_credit_sender :: sender_state where
  "no_credit_sender = a_sender\<lparr>sender := Some (a_link\<lparr>link_sendable := False\<rparr>)\<rparr>"

definition new_sender :: sender_state where
  "new_sender = a_sender\<lparr>sender := None, tokenRenewalTimer := False\<rparr>"

definition a_delivery :: event_context where
  "a_delivery = \<lparr>ctx_delivery = \<lparr>delivery_id = 1, remote_state_error = None\<rparr>\<rparr>"

definition a_failed_delivery :: event_context where
  "a_failed_delivery =
     \<lparr>ctx_delivery = \<lparr>delivery_id = 1,
        remote_state_error = Some (AmqpError ''com.microsoft:server-busy'' ''busy'')\<rparr>\<rparr>"

definition a_message :: sb_message where
  "a_message = \<lparr>sb_body = Some (JStr ''Hello sb world!!''), sb_fields = []\<rparr>"

definition a_codec :: codec where
  "a_codec =
     \<lparr>toAmqpMessage = (\<lambda>d. \<lparr>body = Section [], message_annotations = Some [],
                             application_properties = None, properties = sb_fields d\<rparr>),
      dt_encode = (\<lambda>b. case b of Some (JStr x) \<Rightarrow> Section x | _ \<Rightarrow> Section []),
      encode = (\<lambda>m. case body m of Section x \<Rightarrow> x | DataSections xs \<Rightarrow> concat xs),
      messageProperties = [''message_id'', ''subject'', ''group_sequence'']\<rparr>"

definition all_fine :: init_env where
  "all_fine = \<lparr>negotiateClaim_result = None, createSender_result = Inr True,
               ensureTokenRenewal_result = None\<rparr>"

definition quiet_data :: sb_message where
  "quiet_data =
     \<lparr>sb_body = Some (JStr ''m0''),
      sb_fields = [(''message_id'', JStr ''id-0''), (''subject'', JStr []),
                   (''group_sequence'', JNum 0)]\<rparr>"

definition other_data :: sb_message where
  "other_data =
     \<lparr>sb_body = Some (JStr ''m1''),
      sb_fields = [(''message_id'', JStr ''id-1''), (''subject'', JStr ''s1'')]\<rparr>"

definition an_open_receiver :: receiver where
  "an_open_receiver =
     \<lparr>receiverType = ''streaming'', receiver_id = ''r-0'', receiver_open = True,
      isReceivingMessages = True,
      receiver_options = \<lparr>opt_maxConcurrentCalls = 1, opt_receiveMode = peekLock,
                            opt_autoComplete = None\<rparr>,
      callbacks = Some (0, 1)\<rparr>"

definition an_open_batching_receiver :: receiver where
  "an_open_batching_receiver =
     an_open_receiver\<lparr>receiverType := ''batching'', receiver_id := ''b-0'', callbacks := None\<rparr>"




definition a_client :: subscription_client where
  "a_client =
     \<lparr>client_name = ''topic/Subscriptions/sub'', maxConcurrentCalls = 1, receiveMode = peekLock,
      streamingReceiver = None, batchingReceiver = None, client_log = []\<rparr>"

section \<open>Projections of the state\<close>

lemma emit_op_simps [simp]:
  "oplog (emit_op x s) = oplog s @ [x]"
  "sender (emit_op x s) = sender s"
  "promises (emit_op x s) = promises s"
  "next_promise (emit_op x s) = next_promise s"
  "connectionId (emit_op x s) = connectionId s"
  "sender_id (emit_op x s) = sender_id s"
  "context_sender (emit_op x s) = context_sender s"
  "tokenRenewalTimer (emit_op x s) = tokenRenewalTimer s"
  by (simp_all add: emit_op_def)

lemma removeHandler_simps [simp]:
  "oplog (removeHandler ev h s) = oplog s @ [RemoveHandler ev h]"
  "sender (removeHandler ev h s) =
     map_option (\<lambda>l. l\<lparr>link_handlers := remove1 (ev, h) (link_handlers l)\<rparr>) (sender s)"
  "promises (removeHandler ev h s) = promises s"
  "next_promise (removeHandler ev h s) = next_promise s"
  "connectionId (removeHandler ev h s) = connectionId s"
  "sender_id (removeHandler ev h s) = sender_id s"
  by (simp_all add: removeHandler_def)

lemma registerHandler_simps [simp]:
  "oplog (registerHandler ev h s) = oplog s @ [RegisterHandler ev h]"
  "sender (registerHandler ev h s) =
     map_option (\<lambda>l. l\<lparr>link_handlers := link_handlers l @ [(ev, h)]\<rparr>) (sender s)"
  "promises (registerHandler ev h s) = promises s"
  "next_promise (registerHandler ev h s) = next_promise s"
  "connectionId (registerHandler ev h s) = connectionId s"
  "sender_id (registerHandler ev h s) = sender_id s"
  by (simp_all add: registerHandler_def)

lemma resolve_simps [simp]:
  "oplog (resolve p d s) = oplog s @ [Resolve p d]"
  "sender (resolve p d s) = sender s"
  "next_promise (resolve p d s) = next_promise s"
  "connectionId (resolve p d s) = connectionId s"
  "sender_id (resolve p d s) = sender_id s"
  "promises (resolve p d s) =
     (case promises s p of None \<Rightarrow> (promises s)(p := Some (Resolved d)) | Some v \<Rightarrow> promises s)"
  by (simp_all add: resolve_def split: option.splits)

lemma reject_simps [simp]:
  "oplog (reject p e s) = oplog s @ [Reject p e]"
  "sender (reject p e s) = sender s"
  "next_promise (reject p e s) = next_promise s"
  "connectionId (reject p e s) = connectionId s"
  "sender_id (reject p e s) = sender_id s"
  "promises (reject p e s) =
     (case promises s p of None \<Rightarrow> (promises s)(p := Some (Rejected e)) | Some v \<Rightarrow> promises s)"
  by (simp_all add: reject_def split: option.splits)

lemma removeListeners_simps [simp]:
  "oplog (removeListeners p s) =
     oplog s @ [RemoveHandler rejected (OnRejected p), RemoveHandler accepted (OnAccepted p),
                RemoveHandler released (OnReleased p), RemoveHandler modified (OnModified p)]"
  "promises (removeListeners p s) = promises s"
  "next_promise (removeListeners p s) = next_promise s"
  "connectionId (removeListeners p s) = connectionId s"
  "sender_id (removeListeners p s) = sender_id s"
  by (simp_all add: removeListeners_def)

lemma sender_removeListeners:
  "sender (removeListeners p s) =
     map_option (\<lambda>l. l\<lparr>link_handlers :=
        remove1 (modified, OnModified p) (remove1 (released, OnReleased p)
          (remove1 (accepted, OnAccepted p) (remove1 (rejected, OnRejected p) (link_handlers l))))\<rparr>)
       (sender s)"
  by (cases "sender s") (simp_all add: removeListeners_def)

lemma msgs_removeListeners [simp]:
  "released_msg (removeListeners p s) = released_msg s"
  "modified_msg (removeListeners p s) = modified_msg s"
  by (simp_all add: released_msg_def modified_msg_def)

section \<open>The send attempt\<close>

text \<open>What the executor does on a link with credit.\<close>

lemma sendEventPromise_sendable:
  assumes "sender s = Some l" "link_sendable l"
  shows "sendEventPromise message tag format s =
    (next_promise s,
     s\<lparr>next_promise := Suc (next_promise s),
       promises := (promises s)(next_promise s := None),
       sender := Some (l\<lparr>link_handlers := link_handlers l @
          [(accepted, OnAccepted (next_promise s)), (rejected, OnRejected (next_promise s)),
           (modified, OnModified (next_promise s)), (released, OnReleased (next_promise s))]\<rparr>),
       oplog := oplog s @
          [RegisterHandler accepted (OnAccepted (next_promise s)),
           RegisterHandler rejected (OnRejected (next_promise s)),
           RegisterHandler modified (OnModified (next_promise s)),
           RegisterHandler released (OnReleased (next_promise s)),
           LinkSend message tag format]\<rparr>)"
  using assms
  by (simp add: sendEventPromise_def Let_def link_send_def registerHandler_def emit_op_def)

lemma sendEventPromise_not_sendable:
  assumes "sender s = Some l" "\<not> link_sendable l"
  shows "sendEventPromise message tag format s =
    (next_promise s,
     s\<lparr>next_promise := Suc (next_promise s),
       promises := (promises s)(next_promise s := Some (Rejected (Error (try_later_msg s)))),
       oplog := oplog s @ [Reject (next_promise s) (Error (try_later_msg s))]\<rparr>)"
  using assms
  by (simp add: sendEventPromise_def Let_def reject_def emit_op_def try_later_msg_def)

subsection \<open>No credit, and the retry\<close>

lemma await_settled: "promises s p = Some v \<Longrightarrow> await p evs s = (Some v, evs, s)"
  by (cases evs) simp_all

lemma retry_settled:
  "promises s p = Some (Rejected e) \<Longrightarrow>
   retry (\<lambda>s'. (p, s')) (Suc k) evs s = (Some (Rejected e), s)"
  by (induction k) (simp_all add: await_settled)

text \<open>
  Claim C4. On a link without credit the promise of the attempt is rejected at once with
  the error "cannot send the message right now. Please try later."; whatever the number of
  tries and the later events, that is the outcome of \<open>trySend\<close>, and the only changes
  of the state are the new promise and the log entry of its rejection: the link and its
  listeners are as before, no send was issued, no handler registered, and the message is
  nowhere in the state.
\<close>

theorem trySend_no_credit:
  assumes "sender s = Some l" and "\<not> link_sendable l" and "0 < tries"
  shows "sendEventPromise message tag format s =
           (next_promise s,
            s\<lparr>next_promise := Suc (next_promise s),
              promises := (promises s)(next_promise s := Some (Rejected (Error (try_later_msg s)))),
              oplog := oplog s @ [Reject (next_promise s) (Error (try_later_msg s))]\<rparr>)
       \<and> trySend message tag format tries evs s =
           (Some (Rejected (Error (try_later_msg s))), snd (sendEventPromise message tag format s))
       \<and> sender (snd (trySend message tag format tries evs s)) = sender s
       \<and> filter is_send (oplog (snd (trySend message tag format tries evs s))) =
           filter is_send (oplog s)
       \<and> filter is_register (oplog (snd (trySend message tag format tries evs s))) =
           filter is_register (oplog s)"
proof -
  note sp = sendEventPromise_not_sendable [OF assms(1,2), of message tag format]
  obtain k where k: "tries = Suc k" using assms(3) by (cases tries) auto
  let ?s1 = "snd (sendEventPromise message tag format s)"
  have st: "promises ?s1 (next_promise s) = Some (Rejected (Error (try_later_msg s)))"
    by (simp add: sp)
  have "trySend message tag format tries evs s = (Some (Rejected (Error (try_later_msg s))), ?s1)"
    using retry_settled [OF st, of k evs] by (simp add: trySend_def k sp del: retry.simps)
  then show ?thesis using sp by simp
qed

theorem trySend_no_credit_witness:
  "sender no_credit_sender = Some (a_link\<lparr>link_sendable := False\<rparr>)
   \<and> \<not> link_sendable (a_link\<lparr>link_sendable := False\<rparr>) \<and> (0::nat) < 3
   \<and> trySend (Buf ''m'') None None 3 [(accepted, a_delivery)] no_credit_sender =
        (Some (Rejected (Error (try_later_msg no_credit_sender))),
         no_credit_sender\<lparr>next_promise := 1,
           promises := (promises no_credit_sender)
              (0 := Some (Rejected (Error (try_later_msg no_credit_sender)))),
           oplog := [Reject 0 (Error (try_later_msg no_credit_sender))]\<rparr>)"
proof -
  have h1: "sender no_credit_sender = Some (a_link\<lparr>link_sendable := False\<rparr>)"
    by (simp add: no_credit_sender_def)
  have h2: "\<not> link_sendable (a_link\<lparr>link_sendable := False\<rparr>)" by simp
  have h3: "(0::nat) < 3" by simp
  have l: "next_promise no_credit_sender = 0" "oplog no_credit_sender = []"
    by (simp_all add: no_credit_sender_def a_sender_def)
  show ?thesis
    using trySend_no_credit [OF h1 h2 h3, where message = "Buf ''m''" and tag = None
        and format = None and evs = "[(accepted, a_delivery)]"] h1 l
    by simp
qed

section \<open>Dispositions of a send attempt, at concrete inputs\<close>

lemmas sender_defs =
  trySend_def trySend_spec_def sendEventPromise_def emit_def listeners_def link_send_def
  registerHandler_def removeHandler_def removeListeners_def onAccepted_def onRejected_def
  onReleased_def onModified_def resolve_def reject_def emit_op_def translate_def registered_def
  Let_def

lemmas input_defs =
  a_sender_def a_link_def a_delivery_def a_failed_delivery_def

text \<open>
  Claim C2. A send attempt on an open link with credit, when the link reports the delivery
  rejected and the remote state carries no error: the handler removes the four listeners,
  then \<^verbatim>\<open>translate\<close> throws and the promise is not settled. No later disposition settles
  it, since its handlers are gone: the promise \<open>trySend\<close> returns stays pending, and no
  call of \<^verbatim>\<open>resolve\<close> or \<^verbatim>\<open>reject\<close> was made for it.
\<close>

theorem trySend_rejected_without_error_never_settles:
  "fst (trySend (Buf ''m'') None None 3 [(rejected, a_delivery), (accepted, a_delivery)] a_sender)
     = None
   \<and> promises (snd (trySend (Buf ''m'') None None 3
        [(rejected, a_delivery), (accepted, a_delivery)] a_sender)) 0 = None
   \<and> registered 0 (snd (trySend (Buf ''m'') None None 3
        [(rejected, a_delivery), (accepted, a_delivery)] a_sender)) = []
   \<and> oplog (snd (trySend (Buf ''m'') None None 3
        [(rejected, a_delivery), (accepted, a_delivery)] a_sender)) =
       [RegisterHandler accepted (OnAccepted 0), RegisterHandler rejected (OnRejected 0),
        RegisterHandler modified (OnModified 0), RegisterHandler released (OnReleased 0),
        LinkSend (Buf ''m'') None None,
        RemoveHandler rejected (OnRejected 0), RemoveHandler accepted (OnAccepted 0),
        RemoveHandler released (OnReleased 0), RemoveHandler modified (OnModified 0)]
   \<and> filter (settles 0) (oplog (snd (trySend (Buf ''m'') None None 3
        [(rejected, a_delivery), (accepted, a_delivery)] a_sender))) = []"
proof -
  have e: "trySend (Buf ''m'') None None 3 [(rejected, a_delivery), (accepted, a_delivery)] a_sender
      = (r, s') \<Longrightarrow>
    r = None \<and> promises s' 0 = None \<and> registered 0 s' = []
    \<and> oplog s' =
       [RegisterHandler accepted (OnAccepted 0), RegisterHandler rejected (OnRejected 0),
        RegisterHandler modified (OnModified 0), RegisterHandler released (OnReleased 0),
        LinkSend (Buf ''m'') None None,
        RemoveHandler rejected (OnRejected 0), RemoveHandler accepted (OnAccepted 0),
        RemoveHandler released (OnReleased 0), RemoveHandler modified (OnModified 0)]" for r s'
    by (auto simp: eval_nat_numeral sender_defs input_defs)
  show ?thesis
    using e [OF surjective_pairing] by simp
qed

text \<open>
  Claim C3. The outcome of \<open>trySend\<close> on an open link with credit, by the first
  disposition the link reports: accepted resolves with the delivery; rejected with a remote
  error rejects with the translated error; released and modified without a remote error
  reject with the error that says so. Rejected without a remote error settles nothing:
  \<^verbatim>\<open>onRejected\<close> calls \<^verbatim>\<open>translate\<close> without the test the two other handlers make.
\<close>

theorem trySend_rejected_without_error_not_rejected:
  "fst (trySend (Buf ''m'') None None 3 [(rejected, a_delivery)] a_sender) = None
   \<and> fst (trySend (Buf ''m'') None None 3 [(rejected, a_failed_delivery)] a_sender) =
       Some (Rejected (Translated (AmqpError ''com.microsoft:server-busy'' ''busy'')))
   \<and> fst (trySend (Buf ''m'') None None 3 [(released, a_delivery)] a_sender) =
       Some (Rejected (Error (released_msg a_sender)))
   \<and> fst (trySend (Buf ''m'') None None 3 [(modified, a_delivery)] a_sender) =
       Some (Rejected (Error (modified_msg a_sender)))
   \<and> fst (trySend (Buf ''m'') None None 3 [(released, a_failed_delivery)] a_sender) =
       Some (Rejected (Translated (AmqpError ''com.microsoft:server-busy'' ''busy'')))
   \<and> fst (trySend (Buf ''m'') None None 3 [(accepted, a_delivery)] a_sender) =
       Some (Resolved \<lparr>delivery_id = 1, remote_state_error = None\<rparr>)"
  by (simp add: eval_nat_numeral sender_defs input_defs released_msg_def modified_msg_def)

section \<open>The retry around the send attempt\<close>

text \<open>
  Claim C6. \<open>send\<close> on an open link with credit, with three tries, when the link first
  reports the delivery rejected as server-busy and would accept the next one: the call
  rejects with the first outcome and one send was issued, since every try awaits the one
  promise made before the retry. With a send attempt per try, as the spec words it, the
  second try issues a second send and the call resolves.
\<close>

theorem send_retry_reobserves_first_outcome:
  "send a_codec all_fine 3 [(rejected, a_failed_delivery), (accepted, a_delivery)]
      (JObject a_message) a_sender =
     (Some (Rejected (Translated (AmqpError ''com.microsoft:server-busy'' ''busy''))),
      emit rejected a_failed_delivery
        (snd (sendEventPromise (Msg (to_wire a_codec a_message)) None None a_sender)))
   \<and> length (filter is_send (oplog (snd (send a_codec all_fine 3
        [(rejected, a_failed_delivery), (accepted, a_delivery)] (JObject a_message) a_sender)))) = 1
   \<and> fst (trySend_spec (Msg (to_wire a_codec a_message)) None None 3
        [(rejected, a_failed_delivery), (accepted, a_delivery)] a_sender) =
       Some (Resolved \<lparr>delivery_id = 1, remote_state_error = None\<rparr>)
   \<and> length (filter is_send (oplog (snd (trySend_spec (Msg (to_wire a_codec a_message)) None None 3
        [(rejected, a_failed_delivery), (accepted, a_delivery)] a_sender)))) = 2"
proof -
  let ?evs = "[(rejected, a_failed_delivery), (accepted, a_delivery)]"
  have op: "isOpen a_sender" by (simp add: isOpen_def a_sender_def a_link_def)
  have code: "trySend m None None 3 ?evs a_sender =
     (Some (Rejected (Translated (AmqpError ''com.microsoft:server-busy'' ''busy''))),
      emit rejected a_failed_delivery (snd (sendEventPromise m None None a_sender)))" for m
    by (simp add: eval_nat_numeral sender_defs input_defs)
  have sends: "length (filter is_send (oplog (emit rejected a_failed_delivery
      (snd (sendEventPromise m None None a_sender))))) = 1" for m
    by (simp add: sender_defs input_defs)
  have spec: "trySend_spec m None None 3 ?evs a_sender = (r, s') \<Longrightarrow>
      r = Some (Resolved \<lparr>delivery_id = 1, remote_state_error = None\<rparr>)
      \<and> length (filter is_send (oplog s')) = 2" for r s' m
    by (auto simp: eval_nat_numeral sender_defs input_defs)
  have s: "send a_codec all_fine 3 ?evs (JObject a_message) a_sender =
      trySend (Msg (to_wire a_codec a_message)) None None 3 ?evs a_sender"
    using op by (simp add: send_def)
  show ?thesis
    unfolding s code using sends spec [OF surjective_pairing] by simp
qed

section \<open>MessageSender.close\<close>

text \<open>
  Claim C7, as amended. \<open>close\<close> of a sender that holds a link asks the link to close.
  When that resolves, the sender slot of the context is cleared, the link forgotten and the
  renewal timer cancelled, without error. When it rejects, the error is thrown again and
  slot, link and timer stay as they are. A second \<open>close\<close> after one that went through,
  and any \<open>close\<close> of a sender that holds no link, returns without error and leaves the
  state as it is, whatever the environment would answer: over the two calls the timer is
  cancelled once.
\<close>

theorem close_outcomes:
  assumes "sender s = Some l"
  shows "close None s =
           (None, s\<lparr>context_sender := None, sender := None, tokenRenewalTimer := False,
                    oplog := oplog s @ [LinkClose, ClearTimeout]\<rparr>)
       \<and> close (Some e) s = (Some (LinkError e), s\<lparr>oplog := oplog s @ [LinkClose]\<rparr>)
       \<and> close r (snd (close None s)) = (None, snd (close None s))
       \<and> length (filter is_clear (oplog (snd (close r (snd (close None s)))))) =
           Suc (length (filter is_clear (oplog s)))
       \<and> (sender s0 = None \<longrightarrow> close r s0 = (None, s0))"
  using assms by (simp add: close_def emit_op_def Let_def)

theorem close_outcomes_witness:
  "sender a_sender = Some a_link
   \<and> close None a_sender =
       (None, a_sender\<lparr>context_sender := None, sender := None, tokenRenewalTimer := False,
                      oplog := [LinkClose, ClearTimeout]\<rparr>)
   \<and> close (Some (AmqpError ''amqp:internal-error'' ''x'')) a_sender =
       (Some (LinkError (AmqpError ''amqp:internal-error'' ''x'')),
        a_sender\<lparr>oplog := [LinkClose]\<rparr>)
   \<and> close (Some (AmqpError ''amqp:internal-error'' ''x'')) (snd (close None a_sender)) =
       (None, snd (close None a_sender))
   \<and> sender new_sender = None
   \<and> close None new_sender = (None, new_sender)"
proof -
  have h: "sender a_sender = Some a_link" by (simp add: a_sender_def)
  have l: "oplog a_sender = []" "sender new_sender = None"
    by (simp_all add: a_sender_def new_sender_def)
  show ?thesis
    using close_outcomes [OF h, where r = "Some (AmqpError ''amqp:internal-error'' ''x'')"
        and e = "AmqpError ''amqp:internal-error'' ''x''" and ?s0.0 = new_sender]
      close_outcomes [OF h, where r = None and ?s0.0 = new_sender] h l
    by simp
qed

text \<open>
  Claim C7 as stated fails where the close of the link rejects: \<open>close\<close> throws, and
  the slot, the link and the timer are as before.
\<close>

theorem close_rejected_counterexample:
  "sender a_sender = Some a_link
   \<and> fst (close (Some (AmqpError ''amqp:internal-error'' ''x'')) a_sender) =
       Some (LinkError (AmqpError ''amqp:internal-error'' ''x''))
   \<and> context_sender (snd (close (Some (AmqpError ''amqp:internal-error'' ''x'')) a_sender)) =
       Some ''queue-1''
   \<and> sender (snd (close (Some (AmqpError ''amqp:internal-error'' ''x'')) a_sender)) = Some a_link
   \<and> tokenRenewalTimer (snd (close (Some (AmqpError ''amqp:internal-error'' ''x'')) a_sender))
   \<and> filter is_clear (oplog (snd (close (Some (AmqpError ''amqp:internal-error'' ''x'')) a_sender))) = []"
  by (simp add: close_def emit_op_def Let_def a_sender_def)

section \<open>receive\<close>

text \<open>
  Claim C8. While the streaming receiver in the context slot is open, \<open>receive\<close> throws
  the error that asks to stop the previous receive and leaves the client, its slot and its
  log as they are. When the slot is empty or its receiver is not open, \<open>receive\<close> creates
  a new streaming receiver with the client's options, stores it in the slot, starts it with
  the two callbacks and returns a handle on it.
\<close>

theorem receive_conflict:
  "(streamingReceiver c = Some rcvr \<and> receiver_open rcvr \<longrightarrow>
      receive new_id onMessage onError options c =
        (Inl (Error (receive_conflict_msg rcvr c)), c))
   \<and> (streamingReceiver c = None \<or> (streamingReceiver c = Some rcvr \<and> \<not> receiver_open rcvr) \<longrightarrow>
      receive new_id onMessage onError options c =
        (Inr (ReceiveHandler new_id),
         c\<lparr>streamingReceiver := Some
              \<lparr>receiverType = ''streaming'', receiver_id = new_id, receiver_open = False,
               isReceivingMessages = False,
               receiver_options =
                 \<lparr>opt_maxConcurrentCalls = maxConcurrentCalls c, opt_receiveMode = receiveMode c,
                  opt_autoComplete = (case options of None \<Rightarrow> None | Some opts \<Rightarrow> autoComplete opts)\<rparr>,
               callbacks = Some (onMessage, onError)\<rparr>,
           client_log := client_log c @ [StreamingReceive new_id onMessage onError]\<rparr>))"
  by (cases options)
     (auto simp: receive_def Let_def StreamingReceiver_create_def StreamingReceiver_receive_def)

theorem receive_conflict_witness:
  "streamingReceiver (a_client\<lparr>streamingReceiver := Some an_open_receiver\<rparr>) = Some an_open_receiver
   \<and> receiver_open an_open_receiver
   \<and> receive ''r-1'' 2 3 None (a_client\<lparr>streamingReceiver := Some an_open_receiver\<rparr>) =
       (Inl (Error (receive_conflict_msg an_open_receiver
                      (a_client\<lparr>streamingReceiver := Some an_open_receiver\<rparr>))),
        a_client\<lparr>streamingReceiver := Some an_open_receiver\<rparr>)
   \<and> streamingReceiver a_client = None
   \<and> streamingReceiver (snd (receive ''r-1'' 2 3 None a_client)) =
       Some \<lparr>receiverType = ''streaming'', receiver_id = ''r-1'', receiver_open = False,
             isReceivingMessages = False,
             receiver_options = \<lparr>opt_maxConcurrentCalls = 1, opt_receiveMode = peekLock,
                                   opt_autoComplete = None\<rparr>,
             callbacks = Some (2, 3)\<rparr>
   \<and> fst (receive ''r-1'' 2 3 None a_client) = Inr (ReceiveHandler ''r-1'')"
proof -
  let ?c = "a_client\<lparr>streamingReceiver := Some an_open_receiver\<rparr>"
  have h: "streamingReceiver ?c = Some an_open_receiver" "receiver_open an_open_receiver"
    "streamingReceiver a_client = None"
    by (simp_all add: an_open_receiver_def a_client_def)
  show ?thesis
    using receive_conflict [where c = ?c and rcvr = an_open_receiver and new_id = "''r-1''"
        and onMessage = 2 and onError = 3 and options = None]
      receive_conflict [where c = a_client and rcvr = an_open_receiver and new_id = "''r-1''"
        and onMessage = 2 and onError = 3 and options = None] h
    by (simp add: a_client_def)
qed

section \<open>receiveBatch\<close>

text \<open>
  Claim C9. While the batching receiver in the context slot is open and is receiving,
  \<open>receiveBatch\<close> throws and leaves the client and its log as they are. When the slot is
  empty, or its receiver is not open, or it is not receiving, the call is accepted: a new
  batching receiver is stored and asked for the messages, and its answer is the result.
  After an accepted call has returned, the next call is accepted again.
\<close>

theorem receiveBatch_conflict:
  "(batchingReceiver c = Some rcvr \<and> receiver_open rcvr \<and> isReceivingMessages rcvr \<longrightarrow>
      receiveBatch new_id maxMessageCount maxWaitTimeInSeconds link_up answer c =
        (Inl (Error (receiveBatch_conflict_msg rcvr c)), c))
   \<and> (batchingReceiver c = None
        \<or> (batchingReceiver c = Some rcvr \<and> (\<not> receiver_open rcvr \<or> \<not> isReceivingMessages rcvr)) \<longrightarrow>
      receiveBatch new_id maxMessageCount maxWaitTimeInSeconds link_up answer c =
        (answer,
         c\<lparr>batchingReceiver := Some
              \<lparr>receiverType = ''batching'', receiver_id = new_id, receiver_open = link_up,
               isReceivingMessages = False,
               receiver_options =
                 \<lparr>opt_maxConcurrentCalls = maxConcurrentCalls c, opt_receiveMode = receiveMode c,
                  opt_autoComplete = None\<rparr>,
               callbacks = None\<rparr>,
           client_log := client_log c @
             [BatchingReceive new_id maxMessageCount maxWaitTimeInSeconds]\<rparr>)
      \<and> fst (receiveBatch new_id' maxMessageCount' maxWaitTimeInSeconds' link_up' answer'
            (snd (receiveBatch new_id maxMessageCount maxWaitTimeInSeconds link_up answer c))) =
          answer')"
proof (cases "batchingReceiver c")
  case None
  then show ?thesis
    by (simp add: receiveBatch_def Let_def BatchingReceiver_create_def
          BatchingReceiver_receive_def)
next
  case (Some r')
  then show ?thesis
    by (cases "receiver_open r' \<and> isReceivingMessages r'")
       (auto simp: receiveBatch_def Let_def BatchingReceiver_create_def
          BatchingReceiver_receive_def)
qed

theorem receiveBatch_conflict_witness:
  "batchingReceiver (a_client\<lparr>batchingReceiver := Some an_open_batching_receiver\<rparr>) = Some an_open_batching_receiver
   \<and> receiver_open an_open_batching_receiver \<and> isReceivingMessages an_open_batching_receiver
   \<and> receiveBatch ''b-1'' 3 (Some 3) True (Inr [7, 8])
        (a_client\<lparr>batchingReceiver := Some an_open_batching_receiver\<rparr>) =
       (Inl (Error (receiveBatch_conflict_msg an_open_batching_receiver
                      (a_client\<lparr>batchingReceiver := Some an_open_batching_receiver\<rparr>))),
        a_client\<lparr>batchingReceiver := Some an_open_batching_receiver\<rparr>)
   \<and> batchingReceiver a_client = None
   \<and> fst (receiveBatch ''b-1'' 3 (Some 3) True (Inr [7, 8]) a_client) = Inr [7, 8]
   \<and> fst (receiveBatch ''b-2'' 5 None True (Inr [9])
            (snd (receiveBatch ''b-1'' 3 (Some 3) True (Inr [7, 8]) a_client))) = Inr [9]"
proof -
  let ?c = "a_client\<lparr>batchingReceiver := Some an_open_batching_receiver\<rparr>"
  have h1: "batchingReceiver ?c = Some an_open_batching_receiver \<and> receiver_open an_open_batching_receiver
      \<and> isReceivingMessages an_open_batching_receiver"
    by (simp add: an_open_batching_receiver_def an_open_receiver_def a_client_def)
  have h2: "batchingReceiver a_client = None"
    by (simp add: a_client_def)
  note busy = receiveBatch_conflict [where c = ?c and rcvr = an_open_batching_receiver
      and new_id = "''b-1''" and maxMessageCount = 3 and maxWaitTimeInSeconds = "Some 3"
      and link_up = True and answer = "Inr [7, 8]", THEN conjunct1, THEN mp, OF h1]
  note free = receiveBatch_conflict [where c = a_client and rcvr = an_open_batching_receiver
      and new_id = "''b-1''" and maxMessageCount = 3 and maxWaitTimeInSeconds = "Some 3"
      and link_up = True and answer = "Inr [7, 8]" and new_id' = "''b-2''"
      and maxMessageCount' = 5 and maxWaitTimeInSeconds' = None and link_up' = True
      and answer' = "Inr [9]", THEN conjunct2, THEN mp, OF disjI1, OF h2]
  have first: "fst (receiveBatch ''b-1'' 3 (Some 3) True (Inr [7, 8]) a_client) = Inr [7, 8]"
    using free [THEN conjunct1] by simp
  show ?thesis
    using h1 h2 busy first free [THEN conjunct2] by blast
qed

section \<open>sendBatch\<close>

lemma init_no_delivery:
  "filter is_send (oplog (fst (init env s))) = filter is_send (oplog s)
   \<and> filter is_register (oplog (fst (init env s))) = filter is_register (oplog s)
   \<and> next_promise (fst (init env s)) = next_promise s"
  by (simp add: init_def Let_def emit_op_def ensureTokenRenewal_def
        split: option.splits sum.splits)

lemma acquire_init_no_delivery:
  "filter is_send (oplog (fst (acquire_init env s))) = filter is_send (oplog s)
   \<and> filter is_register (oplog (fst (acquire_init env s))) = filter is_register (oplog s)
   \<and> next_promise (fst (acquire_init env s)) = next_promise s"
  using init_no_delivery [of env "emit_op (AcquireLock (senderLock s)) s"]
  by (simp add: acquire_init_def)

text \<open>
  Claim C10. \<open>sendBatch\<close> of the empty array rejects: on an open sender with the
  TypeError of reading \<^verbatim>\<open>messages[0].message_annotations\<close>, otherwise after the
  initialisation, with its error when it fails and with the same TypeError when it
  succeeds. Either way no promise of a send attempt is made, no handler is registered and no
  send is issued. \<open>sendBatch\<close> of anything that is not an array rejects with the
  validation error and leaves the state as it is.
\<close>

theorem sendBatch_empty_or_not_array:
  "(isOpen s \<longrightarrow>
      sendBatch cdc env tries evs (JArray []) s =
        (Some (Rejected (TypeError ''Cannot read property message_annotations of undefined'')), s))
   \<and> (\<not> isOpen s \<longrightarrow>
      sendBatch cdc env tries evs (JArray []) s =
        (Some (Rejected (case snd (acquire_init env s) of
                           Some err \<Rightarrow> err
                         | None \<Rightarrow> TypeError ''Cannot read property message_annotations of undefined'')),
         fst (acquire_init env s)))
   \<and> filter is_send (oplog (snd (sendBatch cdc env tries evs (JArray []) s))) =
       filter is_send (oplog s)
   \<and> filter is_register (oplog (snd (sendBatch cdc env tries evs (JArray []) s))) =
       filter is_register (oplog s)
   \<and> next_promise (snd (sendBatch cdc env tries evs (JArray []) s)) = next_promise s
   \<and> (\<not> isArray datas \<longrightarrow>
      sendBatch cdc env tries evs datas s =
        (Some (Rejected (Error ''data is required and it must be an Array.'')), s))"
proof -
  have e: "batchMessage cdc [] =
      Inl (TypeError ''Cannot read property message_annotations of undefined'')"
    by (simp add: batchMessage_def)
  have o: "isOpen s \<Longrightarrow> sendBatch cdc env tries evs (JArray []) s =
        (Some (Rejected (TypeError ''Cannot read property message_annotations of undefined'')), s)"
    by (simp add: sendBatch_def e)
  have c: "\<not> isOpen s \<Longrightarrow> sendBatch cdc env tries evs (JArray []) s =
        (Some (Rejected (case snd (acquire_init env s) of
                           Some err \<Rightarrow> err
                         | None \<Rightarrow> TypeError ''Cannot read property message_annotations of undefined'')),
         fst (acquire_init env s))"
    by (cases "acquire_init env s") (auto simp: sendBatch_def e split: option.splits)
  have n: "\<not> isArray datas \<Longrightarrow> sendBatch cdc env tries evs datas s =
        (Some (Rejected (Error ''data is required and it must be an Array.'')), s)"
    by (simp add: sendBatch_def)
  show ?thesis
    using o c n acquire_init_no_delivery [of env s] by (cases "isOpen s") simp_all
qed

theorem sendBatch_empty_or_not_array_witness:
  "isOpen a_sender
   \<and> sendBatch a_codec all_fine 3 [] (JArray []) a_sender =
       (Some (Rejected (TypeError ''Cannot read property message_annotations of undefined'')),
        a_sender)
   \<and> \<not> isOpen new_sender
   \<and> fst (sendBatch a_codec all_fine 3 [] (JArray []) new_sender) =
       Some (Rejected (TypeError ''Cannot read property message_annotations of undefined''))
   \<and> \<not> isArray (JUndefined :: (sb_message, sb_message) js_arg)
   \<and> sendBatch a_codec all_fine 3 [] JUndefined new_sender =
       (Some (Rejected (Error ''data is required and it must be an Array.'')), new_sender)
   \<and> \<not> isArray (JObject a_message :: (sb_message, sb_message) js_arg)
   \<and> sendBatch a_codec all_fine 3 [] (JObject a_message) new_sender =
       (Some (Rejected (Error ''data is required and it must be an Array.'')), new_sender)"
proof -
  have h1: "isOpen a_sender" and h2: "\<not> isOpen new_sender"
    by (simp_all add: isOpen_def a_sender_def a_link_def new_sender_def)
  have ok: "snd (acquire_init all_fine new_sender) = None"
    by (simp add: acquire_init_def init_def isOpen_def new_sender_def a_sender_def all_fine_def
          emit_op_def Let_def)
  note A = sendBatch_empty_or_not_array [where s = a_sender and cdc = a_codec and env = all_fine
      and tries = 3 and evs = "[]"]
  note B = sendBatch_empty_or_not_array [where s = new_sender and cdc = a_codec and env = all_fine
      and tries = 3 and evs = "[]"]
  have a: "sendBatch a_codec all_fine 3 [] (JArray []) a_sender =
       (Some (Rejected (TypeError ''Cannot read property message_annotations of undefined'')),
        a_sender)"
    using A [THEN conjunct1] h1 by blast
  have b: "fst (sendBatch a_codec all_fine 3 [] (JArray []) new_sender) =
       Some (Rejected (TypeError ''Cannot read property message_annotations of undefined''))"
    using B [where datas = JUndefined, THEN conjunct2, THEN conjunct1] h2 ok by simp
  have c: "sendBatch a_codec all_fine 3 [] JUndefined new_sender =
       (Some (Rejected (Error ''data is required and it must be an Array.'')), new_sender)"
    using B [where datas = JUndefined] by simp
  have d: "sendBatch a_codec all_fine 3 [] (JObject a_message) new_sender =
       (Some (Rejected (Error ''data is required and it must be an Array.'')), new_sender)"
    using B [where datas = "JObject a_message"] by simp
  show ?thesis using h1 h2 a b c d by simp
qed

section \<open>The envelope of a batch\<close>

lemma map_of_copy_properties:
  "map_of (copy_properties ps m0 acc) prop =
     (if prop \<in> set ps then
        (case map_of (properties m0) prop of
           Some v \<Rightarrow> if truthy v then Some v else map_of acc prop
         | None \<Rightarrow> map_of acc prop)
      else map_of acc prop)"
  by (induction ps arbitrary: acc) (auto simp: update_conv' split: option.splits)

text \<open>
  The envelope of a non-empty array: its body is the data sections of the messages, each
  encoded on its own, in order; its two dictionaries are those of the first message; of the
  properties section it has the properties of the first message whose values are truthy.
\<close>

lemma batch_envelope:
  "case batchMessage cdc (m0 # ms) of
     Inl err \<Rightarrow> False
   | Inr b \<Rightarrow>
       body b = DataSections (map (encode cdc) (m0 # ms))
       \<and> message_annotations b = message_annotations m0
       \<and> application_properties b = application_properties m0
       \<and> (\<forall>prop. map_of (properties b) prop =
            (if prop \<in> set (messageProperties cdc) then
               (case map_of (properties m0) prop of
                  Some v \<Rightarrow> if truthy v then Some v else None
                | None \<Rightarrow> None)
             else None))"
  by (auto simp: batchMessage_def Let_def map_of_copy_properties split: option.splits)

lemma sendBatch_sends_envelope:
  assumes "(if \<not> isOpen s then acquire_init env s else (s, None)) = (s1, None)"
      and "batchMessage cdc (map (to_wire cdc) (d0 # ds)) = Inr b"
  shows "sendBatch cdc env tries evs (JArray (d0 # ds)) s =
           trySend (Buf (encode cdc b)) None (Some batch_format) tries evs s1"
  using assms by (simp add: sendBatch_def)

text \<open>
  Claim C5. \<open>sendBatch\<close> of a non-empty array whose first message, as an AmqpMessage,
  has a property with a falsy value (an empty string, the number zero), on a sender that is
  open or whose initialisation goes through: the envelope handed to \<open>trySend\<close> has the
  data sections of all the messages as its body, the two dictionaries of the first message,
  and not that property, since the copy is made under \<^verbatim>\<open>if (messages[0][prop])\<close>.
\<close>

theorem sendBatch_drops_falsy_property:
  assumes "map_of (properties (to_wire cdc d0)) prop = Some v" and "\<not> truthy v"
      and "(if \<not> isOpen s then acquire_init env s else (s, None)) = (s1, None)"
  shows "case batchMessage cdc (map (to_wire cdc) (d0 # ds)) of
           Inl err \<Rightarrow> False
         | Inr b \<Rightarrow>
             map_of (properties b) prop = None
             \<and> body b = DataSections (map (\<lambda>d. encode cdc (to_wire cdc d)) (d0 # ds))
             \<and> message_annotations b = message_annotations (to_wire cdc d0)
             \<and> application_properties b = application_properties (to_wire cdc d0)
             \<and> sendBatch cdc env tries evs (JArray (d0 # ds)) s =
                 trySend (Buf (encode cdc b)) None (Some batch_format) tries evs s1"
proof (cases "batchMessage cdc (map (to_wire cdc) (d0 # ds))")
  case (Inl err)
  then show ?thesis
    using batch_envelope [of cdc "to_wire cdc d0" "map (to_wire cdc) ds"] by simp
next
  case (Inr b)
  note env = batch_envelope [of cdc "to_wire cdc d0" "map (to_wire cdc) ds"]
  have p: "map_of (properties b) prop = None"
    using env Inr assms(1,2) by simp
  have rest: "body b = DataSections (map (\<lambda>d. encode cdc (to_wire cdc d)) (d0 # ds))"
    "message_annotations b = message_annotations (to_wire cdc d0)"
    "application_properties b = application_properties (to_wire cdc d0)"
    using env Inr by (simp_all add: comp_def)
  show ?thesis
    using sendBatch_sends_envelope [OF assms(3) Inr] Inr p rest by simp
qed

lemma envelope_example:
  "to_wire a_codec quiet_data =
     \<lparr>body = Section ''m0'', message_annotations = Some [], application_properties = None,
      properties = [(''message_id'', JStr ''id-0''), (''subject'', JStr []),
                    (''group_sequence'', JNum 0)]\<rparr>"
  "batchMessage a_codec (map (to_wire a_codec) [quiet_data, other_data]) =
       Inr \<lparr>body = DataSections [''m0'', ''m1''], message_annotations = Some [],
            application_properties = None, properties = [(''message_id'', JStr ''id-0'')]\<rparr>"
  by (simp_all add: batchMessage_def to_wire_def a_codec_def quiet_data_def other_data_def Let_def)

theorem sendBatch_drops_falsy_property_witness:
  "map_of (properties (to_wire a_codec quiet_data)) ''group_sequence'' = Some (JNum 0)
   \<and> \<not> truthy (JNum 0)
   \<and> (if \<not> isOpen a_sender then acquire_init all_fine a_sender else (a_sender, None)) =
       (a_sender, None)
   \<and> batchMessage a_codec (map (to_wire a_codec) [quiet_data, other_data]) =
       Inr \<lparr>body = DataSections [''m0'', ''m1''], message_annotations = Some [],
            application_properties = None, properties = [(''message_id'', JStr ''id-0'')]\<rparr>
   \<and> sendBatch a_codec all_fine 3 [] (JArray [quiet_data, other_data]) a_sender =
       trySend (Buf ''m0m1'') None (Some batch_format) 3 [] a_sender"
proof -
  have h1: "map_of (properties (to_wire a_codec quiet_data)) ''group_sequence'' = Some (JNum 0)"
    unfolding envelope_example(1) by simp
  have h2: "\<not> truthy (JNum 0)" by simp
  have h3: "(if \<not> isOpen a_sender then acquire_init all_fine a_sender else (a_sender, None)) =
       (a_sender, None)"
    by (simp add: isOpen_def a_sender_def a_link_def)
  have e: "encode a_codec \<lparr>body = DataSections [''m0'', ''m1''], message_annotations = Some [],
            application_properties = None, properties = [(''message_id'', JStr ''id-0'')]\<rparr> = ''m0m1''"
    by (simp add: a_codec_def)
  have bm: "batchMessage a_codec (map (to_wire a_codec) (quiet_data # [other_data])) =
       Inr \<lparr>body = DataSections [''m0'', ''m1''], message_annotations = Some [],
            application_properties = None, properties = [(''message_id'', JStr ''id-0'')]\<rparr>"
    by (rule envelope_example(2))
  have "sendBatch a_codec all_fine 3 [] (JArray [quiet_data, other_data]) a_sender =
       trySend (Buf (encode a_codec \<lparr>body = DataSections [''m0'', ''m1''],
            message_annotations = Some [], application_properties = None,
            properties = [(''message_id'', JStr ''id-0'')]\<rparr>)) None (Some batch_format) 3 [] a_sender"
    using sendBatch_drops_falsy_property [OF h1 h2 h3, where ds = "[other_data]" and tries = 3
        and evs = "[]"]
    unfolding bm by simp
  then show ?thesis
    using h1 h2 h3 bm unfolding e by simp
qed

section \<open>Overlapping calls: one initialiser at a time\<close>

lemma isOpen_emit_op [simp]: "isOpen (emit_op x s) = isOpen s"
  by (simp add: isOpen_def emit_op_def)





subsection \<open>The lock passing on\<close>

lemma init_begin_simps [simp]:
  "st (init_begin i y) = emit_op NegotiateClaim (st y)"
  "holder (init_begin i y) = Some i"
  "queue (init_begin i y) = queue y"
  "running (init_begin i y) = running y @ [(started y, Negotiating)]"
  "started (init_begin i y) = Suc (started y)"
  "outcomes (init_begin i y) = outcomes y"
  "callers (init_begin i y) = (callers y)(i := Some (Running (started y)))"
  by (simp_all add: init_begin_def)


subsection \<open>The invariant\<close>


lemma sys_inv_st [simp]: "sys_inv (y\<lparr>st := s'\<rparr>) = sys_inv y"
  by (simp add: sys_inv_def outcome_inv_def)















subsection \<open>Links asked for, and attempts started\<close>








subsection \<open>Calls that come before any answer\<close>





subsection \<open>The answers to the attempt in flight\<close>





subsection \<open>The calls, then the answers\<close>










end
